theory Spec2Isabelle
  imports Complex_Main "HOL-Library.AList"
begin

section \<open>JavaScript values and typed errors\<close>

text \<open>
  The argument bag of a tool call is deserialised JSON. A field that the bag lacks
  reads as \<open>undefined\<close>. Numbers are modelled as reals (JSON has no NaN).
\<close>

datatype jsval =
    JUndefined
  | JNull
  | JBoolean bool
  | JNumber real
  | JString string
  | JArray "jsval list"
  | JObject "(string \<times> jsval) list"

text \<open>ToBoolean, as the operators \<open>!\<close>, \<open>&&\<close> and \<open>||\<close> apply it.\<close>

fun truthy :: "jsval \<Rightarrow> bool" where
  "truthy JUndefined = False"
| "truthy JNull = False"
| "truthy (JBoolean b) = b"
| "truthy (JNumber n) = (n \<noteq> 0)"
| "truthy (JString s) = (s \<noteq> [])"
| "truthy (JArray _) = True"
| "truthy (JObject _) = True"

fun typeof :: "jsval \<Rightarrow> string" where
  "typeof JUndefined = ''undefined''"
| "typeof JNull = ''object''"
| "typeof (JBoolean _) = ''boolean''"
| "typeof (JNumber _) = ''number''"
| "typeof (JString _) = ''string''"
| "typeof (JArray _) = ''object''"
| "typeof (JObject _) = ''object''"

text \<open>The characters of a value already known to be a string.\<close>

fun string_value :: "jsval \<Rightarrow> string" where
  "string_value (JString s) = s"
| "string_value _ = []"

text \<open>
  An optional string field (\<open>string | undefined\<close>) is a \<open>string option\<close>.
  \<open>truthy_str s\<close> is the test \<open>s && ...\<close>; \<open>str_or s d\<close> is \<open>s || d\<close>;
  \<open>string_of s\<close> reads a field already tested truthy;
  \<open>num_or n d\<close> is \<open>n || d\<close> on an optional number.
\<close>

definition truthy_str :: "string option \<Rightarrow> bool" where
  "truthy_str s = (case s of None \<Rightarrow> False | Some t \<Rightarrow> t \<noteq> [])"

definition str_or :: "string option \<Rightarrow> string \<Rightarrow> string" where
  "str_or s d = (case s of None \<Rightarrow> d | Some t \<Rightarrow> if t = [] then d else t)"

definition string_of :: "string option \<Rightarrow> string" where
  "string_of s = (case s of None \<Rightarrow> [] | Some t \<Rightarrow> t)"

definition num_or :: "real option \<Rightarrow> real \<Rightarrow> real" where
  "num_or n d = (case n of None \<Rightarrow> d | Some x \<Rightarrow> if x = 0 then d else x)"

text \<open>
  \<open>ErrorCode\<close> and \<open>McpError\<close> of the protocol SDK. The message kept here is the
  string handed to the constructor.
\<close>

datatype ErrorCode = InvalidParams | MethodNotFound | InternalError

datatype McpError = McpError (code: ErrorCode) (message: string)

text \<open>
  What a \<open>throw\<close> (or a rejected promise) carries: a typed dispatch error, any other
  \<open>Error\<close> object with its message, or a value that is no \<open>Error\<close> at all.
\<close>

datatype thrown = ThrownMcp McpError | ThrownError string | ThrownValue

text \<open>A rejection of the backend SDK's \<open>send\<close>: an \<open>Error\<close> with its message, or another value.\<close>

datatype rejection = RejectError string | RejectValue

section \<open>types.ts\<close>

record Config =
  region :: string
  knowledgeBaseId :: string
  modelArn :: "string option"
  cfg_maxResults :: real
  rerankingModelArn :: "string option"

record s3_location =
  uri :: "string option"

record location =
  location_type :: "string option"
  s3Location :: "s3_location option"

type_synonym metadata = "(string \<times> jsval) list"

record RetrievalResult =
  content_text :: string
  location :: "location option"
  score :: "real option"
  metadata :: "metadata option"

record RetrievedReference =
  ref_text :: string
  ref_location :: "location option"
  ref_metadata :: "metadata option"

record Citation =
  part_text :: string
  span_start :: real
  span_end :: real
  retrievedReferences :: "RetrievedReference list"

record RetrieveAndGenerateResult =
  output_text :: string
  citations :: "Citation list option"
  result_sessionId :: "string option"

section \<open>The backend's wire shapes\<close>

text \<open>
  The request and response types belong to the backend SDK. Each response field below
  holds the value of the optional chain the gateway reads, \<open>None\<close> when a link of the
  chain is absent: \<open>br_text\<close> is \<open>result.content?.text\<close>, \<open>bc_text\<close> is
  \<open>citation.generatedResponsePart?.textResponsePart?.text\<close>, \<open>bc_start\<close> and
  \<open>bc_end\<close> are \<open>...?.span?.start\<close> and \<open>...?.span?.end\<close>.
  In a request, an optional field is \<open>None\<close> when the spread leaves it out.
\<close>

record RetrieveCommandInput =
  ri_knowledgeBaseId :: string
  ri_text :: string
  ri_numberOfResults :: real
  ri_rerankingModelArn :: "string option"
  nextToken :: "string option"

record RetrieveAndGenerateCommandInput =
  gi_text :: string
  gi_knowledgeBaseId :: string
  gi_modelArn :: "string option"
  gi_numberOfResults :: real
  gi_rerankingModelArn :: "string option"
  gi_textPromptTemplate :: "string option"
  gi_sessionId :: "string option"

record BackendRetrievalResult =
  br_text :: "string option"
  br_location :: "location option"
  br_score :: "real option"
  br_metadata :: "metadata option"

record RetrieveResponse =
  retrievalResults :: "BackendRetrievalResult list option"

record BackendReference =
  bref_text :: "string option"
  bref_location :: "location option"
  bref_metadata :: "metadata option"

record BackendCitation =
  bc_text :: "string option"
  bc_start :: "real option"
  bc_end :: "real option"
  bc_retrievedReferences :: "BackendReference list option"

record RetrieveAndGenerateResponse =
  resp_text :: "string option"
  resp_citations :: "BackendCitation list option"
  resp_sessionId :: "string option"

record backend =
  send_retrieve :: "RetrieveCommandInput \<Rightarrow> rejection + RetrieveResponse"
  send_generate :: "RetrieveAndGenerateCommandInput \<Rightarrow> rejection + RetrieveAndGenerateResponse"

section \<open>bedrock-client.ts: the backend gateway\<close>

text \<open>\<open>error instanceof Error ? error.message : 'Unknown error'\<close>\<close>

fun rejection_message :: "rejection \<Rightarrow> string" where
  "rejection_message (RejectError m) = m"
| "rejection_message RejectValue = ''Unknown error''"

text \<open>\<open>...(x && { field: y })\<close>: the field is present only when \<open>x\<close> is truthy.\<close>

definition spread_if :: "string option \<Rightarrow> string option" where
  "spread_if x = (if truthy_str x then x else None)"

definition retrieve_input :: "Config \<Rightarrow> string \<Rightarrow> string option \<Rightarrow> RetrieveCommandInput" where
  "retrieve_input config query sessionId =
     \<lparr> ri_knowledgeBaseId = knowledgeBaseId config,
       ri_text = query,
       ri_numberOfResults = cfg_maxResults config,
       ri_rerankingModelArn = spread_if (rerankingModelArn config),
       nextToken = spread_if sessionId \<rparr>"

definition retrieve_result :: "BackendRetrievalResult \<Rightarrow> RetrievalResult" where
  "retrieve_result result =
     \<lparr> content_text = str_or (br_text result) [],
       location = br_location result,
       score = br_score result,
       metadata = br_metadata result \<rparr>"

definition retrieve ::
  "Config \<Rightarrow> backend \<Rightarrow> string \<Rightarrow> string option \<Rightarrow> thrown + RetrievalResult list" where
  "retrieve config client query sessionId =
     (case send_retrieve client (retrieve_input config query sessionId) of
        Inr response \<Rightarrow>
          Inr (map retrieve_result
                 (case retrievalResults response of None \<Rightarrow> [] | Some rs \<Rightarrow> rs))
      | Inl error \<Rightarrow>
          Inl (ThrownError (''Failed to retrieve from knowledge base: '' @ rejection_message error)))"

definition retrieveAndGenerate_input ::
  "Config \<Rightarrow> string \<Rightarrow> string option \<Rightarrow> string option \<Rightarrow> RetrieveAndGenerateCommandInput" where
  "retrieveAndGenerate_input config query sessionId systemPrompt =
     \<lparr> gi_text = query,
       gi_knowledgeBaseId = knowledgeBaseId config,
       gi_modelArn = modelArn config,
       gi_numberOfResults = cfg_maxResults config,
       gi_rerankingModelArn = spread_if (rerankingModelArn config),
       gi_textPromptTemplate = spread_if systemPrompt,
       gi_sessionId = spread_if sessionId \<rparr>"

definition generate_reference :: "BackendReference \<Rightarrow> RetrievedReference" where
  "generate_reference ref =
     \<lparr> ref_text = str_or (bref_text ref) [],
       ref_location = bref_location ref,
       ref_metadata = bref_metadata ref \<rparr>"

definition generate_citation :: "BackendCitation \<Rightarrow> Citation" where
  "generate_citation citation =
     \<lparr> part_text = str_or (bc_text citation) [],
       span_start = num_or (bc_start citation) 0,
       span_end = num_or (bc_end citation) 0,
       retrievedReferences =
         map generate_reference
           (case bc_retrievedReferences citation of None \<Rightarrow> [] | Some rs \<Rightarrow> rs) \<rparr>"

definition retrieveAndGenerate ::
  "Config \<Rightarrow> backend \<Rightarrow> string \<Rightarrow> string option \<Rightarrow> string option
     \<Rightarrow> thrown + RetrieveAndGenerateResult" where
  "retrieveAndGenerate config client query sessionId systemPrompt =
     (case send_generate client (retrieveAndGenerate_input config query sessionId systemPrompt) of
        Inr response \<Rightarrow>
          Inr \<lparr> output_text = str_or (resp_text response) [],
                citations = map_option (map generate_citation) (resp_citations response),
                result_sessionId = resp_sessionId response \<rparr>
      | Inl error \<Rightarrow>
          Inl (ThrownError (''Failed to retrieve and generate from knowledge base: ''
                 @ rejection_message error)))"

section \<open>server.ts: the dispatcher and its session registry\<close>

text \<open>
  \<open>sessions: Map<string, string>\<close>. A JavaScript \<open>Map\<close> iterates in insertion order;
  \<open>set\<close> on a key it has replaces the value in place, on a new key appends an entry.
\<close>

type_synonym sessions = "(string \<times> string) list"

definition map_has :: "sessions \<Rightarrow> string \<Rightarrow> bool" where
  "map_has m k = (map_of m k \<noteq> None)"

definition map_get :: "sessions \<Rightarrow> string \<Rightarrow> string option" where
  "map_get m k = map_of m k"

definition map_set :: "sessions \<Rightarrow> string \<Rightarrow> string \<Rightarrow> sessions" where
  "map_set m k v = AList.update k v m"

text \<open>
  The argument bag after the destructuring casts. The handler tests \<open>query\<close> at run
  time, so it is any value; the other fields stand at their declared types. The
  catalog declares \<open>maxResults\<close> (a number, minimum 1, maximum 100) for
  \<open>retrieve_knowledge\<close>; a caller's bag can carry it.
\<close>

record ToolArgs =
  query :: jsval
  sessionId :: "string option"
  systemPrompt :: "string option"
  sessionName :: "string option"
  maxResults :: "real option"

text \<open>
  \<open>request.params\<close>. The protocol schema leaves \<open>arguments\<close> optional: a call may
  come without a bag, and then \<open>args\<close> is \<open>undefined\<close> (\<open>None\<close>).
\<close>

record CallToolRequest =
  name :: string
  arguments :: "ToolArgs option"

text \<open>
  The objects handed to \<open>JSON.stringify\<close>; the envelope is
  \<open>{ content: [{ type: 'text', text: JSON.stringify(payload, null, 2) }] }\<close>.
  A \<open>None\<close> field is an \<open>undefined\<close> one, which the serialiser leaves out;
  \<open>bedrockSessionId = None\<close> stands for \<open>null\<close>. The constructors of \<open>payload\<close>
  take the fields in the order the source writes them: \<open>query, results,
  totalResults\<close>; \<open>query, response, sessionId, citations\<close>; \<open>sessionId, message\<close>;
  \<open>sessions, totalSessions\<close>.
\<close>

record RankedResult =
  rank :: nat
  content :: string
  out_score :: "real option"
  source :: string
  out_metadata :: "metadata option"

record CitationSource =
  src_content :: string
  src_source :: string
  src_metadata :: "metadata option"

record ShapedCitation =
  cit_id :: nat
  cit_text :: string
  cit_span :: "real \<times> real"
  cit_sources :: "CitationSource list"

record SessionEntry =
  entry_sessionId :: string
  bedrockSessionId :: "string option"
  active :: bool

datatype payload =
    RetrievePayload string "RankedResult list" nat
  | GeneratePayload string string "string option" "ShapedCitation list option"
  | CreateSessionPayload string string
  | ListSessionsPayload "SessionEntry list" nat

text \<open>\<open>x.location?.s3Location?.uri || 'Unknown'\<close>\<close>

definition source_of :: "location option \<Rightarrow> string" where
  "source_of loc = str_or (Option.bind (Option.bind loc s3Location) uri) ''Unknown''"

definition shape_result :: "nat \<times> RetrievalResult \<Rightarrow> RankedResult" where
  "shape_result = (\<lambda>(index, result).
     \<lparr> rank = index + 1,
       content = content_text result,
       out_score = score result,
       source = source_of (location result),
       out_metadata = metadata result \<rparr>)"

definition shape_source :: "RetrievedReference \<Rightarrow> CitationSource" where
  "shape_source ref =
     \<lparr> src_content = ref_text ref,
       src_source = source_of (ref_location ref),
       src_metadata = ref_metadata ref \<rparr>"

definition shape_citation :: "nat \<times> Citation \<Rightarrow> ShapedCitation" where
  "shape_citation = (\<lambda>(index, citation).
     \<lparr> cit_id = index + 1,
       cit_text = part_text citation,
       cit_span = (span_start citation, span_end citation),
       cit_sources = map shape_source (retrievedReferences citation) \<rparr>)"

definition shape_entry :: "string \<times> string \<Rightarrow> SessionEntry" where
  "shape_entry = (\<lambda>(id, bedrockSessionId).
     \<lparr> entry_sessionId = id,
       bedrockSessionId = (if bedrockSessionId = [] then None else Some bedrockSessionId),
       active = (bedrockSessionId \<noteq> []) \<rparr>)"

text \<open>The decimal digits of \<open>Date.now()\<close>, as the template literal prints them.\<close>

definition digit :: "nat \<Rightarrow> char" where
  "digit d = ''0123456789'' ! d"

fun string_of_nat :: "nat \<Rightarrow> string" where
  "string_of_nat n =
     (if n < 10 then [digit n]
      else string_of_nat (n div 10) @ [digit (n mod 10)])"

declare string_of_nat.simps [simp del]

definition generated_name :: "nat \<Rightarrow> string" where
  "generated_name now = ''session_'' @ string_of_nat now"

text \<open>
  The handler awaits its gateway once at most. \<open>Finished\<close> is a handler body that
  ends without calling the gateway; an \<open>Await\<close> node carries the arguments of the
  call and what the body does with the settled promise (\<open>Inl\<close> a rejection).
\<close>

datatype 'a awaiting =
    Finished 'a
  | AwaitRetrieve string "string option" "thrown + RetrievalResult list \<Rightarrow> 'a"
  | AwaitRetrieveAndGenerate string "string option" "string option"
      "thrown + RetrieveAndGenerateResult \<Rightarrow> 'a"

datatype gateway_call =
    RetrieveCall string "string option"
  | RetrieveAndGenerateCall string "string option" "string option"

fun pending :: "'a awaiting \<Rightarrow> gateway_call option" where
  "pending (Finished _) = None"
| "pending (AwaitRetrieve q sid _) = Some (RetrieveCall q sid)"
| "pending (AwaitRetrieveAndGenerate q sid prompt _) = Some (RetrieveAndGenerateCall q sid prompt)"

text \<open>The \<open>bedrockClient\<close> member: the two methods the handler calls.\<close>

record gateway =
  gw_retrieve :: "string \<Rightarrow> string option \<Rightarrow> thrown + RetrievalResult list"
  gw_retrieveAndGenerate ::
    "string \<Rightarrow> string option \<Rightarrow> string option \<Rightarrow> thrown + RetrieveAndGenerateResult"

definition BedrockKnowledgeBaseClient :: "Config \<Rightarrow> backend \<Rightarrow> gateway" where
  "BedrockKnowledgeBaseClient config client =
     \<lparr> gw_retrieve = retrieve config client,
       gw_retrieveAndGenerate = retrieveAndGenerate config client \<rparr>"

fun complete :: "gateway \<Rightarrow> 'a awaiting \<Rightarrow> 'a" where
  "complete gw (Finished x) = x"
| "complete gw (AwaitRetrieve q sid k) = k (gw_retrieve gw q sid)"
| "complete gw (AwaitRetrieveAndGenerate q sid prompt k) =
     k (gw_retrieveAndGenerate gw q sid prompt)"

text \<open>What the \<open>try\<close> block ends with (a return, or a throw as \<open>Inl\<close>), and the registry then.\<close>

type_synonym outcome = "(thrown + payload) \<times> sessions"

text \<open>
  Destructuring \<open>undefined\<close> (\<open>const { query, ... } = args\<close> on a call without a bag)
  throws a \<open>TypeError\<close>, an \<open>Error\<close> that is no \<open>McpError\<close>. The message is the
  engine's; this is how Node words it, naming the first property of the pattern.
\<close>

definition destructure_error :: "string \<Rightarrow> thrown" where
  "destructure_error property =
     ThrownError (''Cannot destructure property '' @ [CHR 0x27] @ property @ [CHR 0x27]
                  @ '' of '' @ [CHR 0x27] @ ''args'' @ [CHR 0x27] @ '' as it is undefined.'')"

definition invalid_query :: thrown where
  "invalid_query = ThrownMcp (McpError InvalidParams ''Query is required and must be a string'')"

text \<open>\<open>retrieve_knowledge\<close> after its await (lines 124 to 141).\<close>

definition retrieve_knowledge_resume ::
  "sessions \<Rightarrow> string \<Rightarrow> thrown + RetrievalResult list \<Rightarrow> outcome" where
  "retrieve_knowledge_resume sess q settled =
     (case settled of
        Inl error \<Rightarrow> (Inl error, sess)
      | Inr results \<Rightarrow>
          (Inr (RetrievePayload q (map shape_result (enumerate 0 results)) (length results)),
           sess))"

text \<open>\<open>retrieve_and_generate\<close> after its await (lines 166 to 197).\<close>

definition retrieve_and_generate_resume ::
  "nat \<Rightarrow> sessions \<Rightarrow> string \<Rightarrow> string option \<Rightarrow> thrown + RetrieveAndGenerateResult
     \<Rightarrow> outcome" where
  "retrieve_and_generate_resume now sess q sid settled =
     (case settled of
        Inl error \<Rightarrow> (Inl error, sess)
      | Inr result \<Rightarrow>
          (let sess' =
             (case result_sessionId result of
                None \<Rightarrow> sess
              | Some token \<Rightarrow>
                  if token = [] then sess
                  else if truthy_str sid then map_set sess (string_of sid) token
                  else map_set sess (generated_name now) token)
           in (Inr (GeneratePayload q (output_text result) (result_sessionId result)
                      (map_option (\<lambda>cs. map shape_citation (enumerate 0 cs))
                         (citations result))),
               sess')))"

text \<open>
  The \<open>try\<close> block of the \<open>CallToolRequestSchema\<close> handler. \<open>now\<close> is what
  \<open>Date.now()\<close> returns during this call.
\<close>

definition handler_try :: "nat \<Rightarrow> sessions \<Rightarrow> CallToolRequest \<Rightarrow> outcome awaiting" where
  "handler_try now sess request =
     (let nm = name request in
      if nm = ''retrieve_knowledge'' then
        (case arguments request of
           None \<Rightarrow> Finished (Inl (destructure_error ''query''), sess)
         | Some args \<Rightarrow>
             if \<not> truthy (query args) \<or> typeof (query args) \<noteq> ''string''
             then Finished (Inl invalid_query, sess)
             else AwaitRetrieve (string_value (query args)) (sessionId args)
                    (retrieve_knowledge_resume sess (string_value (query args))))
      else if nm = ''retrieve_and_generate'' then
        (case arguments request of
           None \<Rightarrow> Finished (Inl (destructure_error ''query''), sess)
         | Some args \<Rightarrow>
             if \<not> truthy (query args) \<or> typeof (query args) \<noteq> ''string''
             then Finished (Inl invalid_query, sess)
             else
               (let actualSessionId =
                  (if truthy_str (sessionId args) \<and> map_has sess (string_of (sessionId args))
                   then map_get sess (string_of (sessionId args))
                   else sessionId args)
                in AwaitRetrieveAndGenerate (string_value (query args)) actualSessionId
                     (systemPrompt args)
                     (retrieve_and_generate_resume now sess (string_value (query args))
                        (sessionId args))))
      else if nm = ''create_session'' then
        (case arguments request of
           None \<Rightarrow> Finished (Inl (destructure_error ''sessionName''), sess)
         | Some args \<Rightarrow>
             (let sid = str_or (sessionName args) (generated_name now)
              in Finished (Inr (CreateSessionPayload sid ''Session created successfully''),
                           map_set sess sid [])))
      else if nm = ''list_sessions'' then
        (let entries = map shape_entry sess
         in Finished (Inr (ListSessionsPayload entries (length entries)), sess))
      else
        Finished (Inl (ThrownMcp (McpError MethodNotFound (''Unknown tool: '' @ nm))), sess))"

text \<open>The \<open>catch\<close> block (lines 243 to 252).\<close>

fun catch_block :: "string \<Rightarrow> thrown \<Rightarrow> McpError" where
  "catch_block nm (ThrownMcp error) = error"
| "catch_block nm (ThrownError msg) =
     McpError InternalError (''Error executing tool '' @ nm @ '': '' @ msg)"
| "catch_block nm ThrownValue =
     McpError InternalError (''Error executing tool '' @ nm @ '': '' @ ''Unknown error'')"

text \<open>One call, start to end, against a gateway: the rejection or the payload, and the registry.\<close>

definition handler ::
  "gateway \<Rightarrow> nat \<Rightarrow> sessions \<Rightarrow> CallToolRequest \<Rightarrow> (McpError + payload) \<times> sessions" where
  "handler gw now sess request =
     (case complete gw (handler_try now sess request) of
        (Inl error, sess') \<Rightarrow> (Inl (catch_block (name request) error), sess')
      | (Inr result, sess') \<Rightarrow> (Inr result, sess'))"

text \<open>
  A sequence of calls, each with the gateway and the clock it meets. Calls run one
  after the other: no other call touches the registry between an await and its resume.
\<close>

type_synonym call = "gateway \<times> nat \<times> CallToolRequest"

fun run_calls :: "sessions \<Rightarrow> call list \<Rightarrow> sessions" where
  "run_calls sess [] = sess"
| "run_calls sess ((gw, now, request) # rest) =
     run_calls (snd (handler gw now sess request)) rest"

text \<open>What a gateway call throws, when it throws.\<close>

fun raised :: "gateway \<Rightarrow> gateway_call \<Rightarrow> thrown option" where
  "raised gw (RetrieveCall q sid) =
     (case gw_retrieve gw q sid of Inl error \<Rightarrow> Some error | Inr _ \<Rightarrow> None)"
| "raised gw (RetrieveAndGenerateCall q sid prompt) =
     (case gw_retrieveAndGenerate gw q sid prompt of Inl error \<Rightarrow> Some error | Inr _ \<Rightarrow> None)"

section \<open>The registry as the specification words it\<close>

text \<open>
  The specification's registry holds, for a handle, the token of the most recent
  successful response for it. \<open>response_write\<close> follows those words, reading a call's
  answer as the caller sees it: \<open>create_session\<close> answers with the handle it allocated,
  stored with the empty token; \<open>retrieve_and_generate\<close> answers with the backend's
  token, stored under the handle the caller supplied or else under a generated one;
  any other answer stores nothing. \<open>writes\<close> lists what a sequence of calls stores,
  oldest first.
\<close>

definition supplied_sessionId :: "CallToolRequest \<Rightarrow> string option" where
  "supplied_sessionId request =
     (case arguments request of None \<Rightarrow> None | Some args \<Rightarrow> sessionId args)"

definition response_write ::
  "nat \<Rightarrow> CallToolRequest \<Rightarrow> McpError + payload \<Rightarrow> (string \<times> string) option" where
  "response_write now request response =
     (case response of
        Inr (CreateSessionPayload handle _) \<Rightarrow> Some (handle, [])
      | Inr (GeneratePayload _ _ (Some token) _) \<Rightarrow>
          if token = [] then None
          else Some (if truthy_str (supplied_sessionId request)
                     then string_of (supplied_sessionId request)
                     else generated_name now, token)
      | _ \<Rightarrow> None)"

fun writes :: "sessions \<Rightarrow> call list \<Rightarrow> (string \<times> string) list" where
  "writes sess [] = []"
| "writes sess ((gw, now, request) # rest) =
     (case response_write now request (fst (handler gw now sess request)) of
        None \<Rightarrow> []
      | Some w \<Rightarrow> [w])
     @ writes (snd (handler gw now sess request)) rest"

section \<open>Test doubles\<close>

text \<open>
  The empty argument bag, the configuration of the repository's test suite, and
  backends that settle every \<open>send\<close> the same way, as the suite's mocks do.
\<close>

definition no_args :: ToolArgs where
  "no_args = \<lparr> query = JUndefined, sessionId = None, systemPrompt = None,
               sessionName = None, maxResults = None \<rparr>"

definition test_config :: Config where
  "test_config = \<lparr> region = ''us-east-1'', knowledgeBaseId = ''test-kb-id'',
                   modelArn = None, cfg_maxResults = 10, rerankingModelArn = None \<rparr>"

definition resolving_backend :: "RetrieveResponse \<Rightarrow> RetrieveAndGenerateResponse \<Rightarrow> backend" where
  "resolving_backend r g = \<lparr> send_retrieve = (\<lambda>_. Inr r), send_generate = (\<lambda>_. Inr g) \<rparr>"

definition rejecting_backend :: "rejection \<Rightarrow> backend" where
  "rejecting_backend e = \<lparr> send_retrieve = (\<lambda>_. Inl e), send_generate = (\<lambda>_. Inl e) \<rparr>"

definition no_results :: RetrieveResponse where
  "no_results = \<lparr> retrievalResults = Some [] \<rparr>"

definition no_answer :: RetrieveAndGenerateResponse where
  "no_answer = \<lparr> resp_text = None, resp_citations = None, resp_sessionId = None \<rparr>"

definition idle_gateway :: gateway where
  "idle_gateway = BedrockKnowledgeBaseClient test_config (resolving_backend no_results no_answer)"

definition throwing_gateway :: "thrown \<Rightarrow> gateway" where
  "throwing_gateway t =
     \<lparr> gw_retrieve = (\<lambda>_ _. Inl t), gw_retrieveAndGenerate = (\<lambda>_ _ _. Inl t) \<rparr>"

text \<open>Two results in the backend's order; the second has no locator.\<close>

definition two_results :: RetrieveResponse where
  "two_results =
     \<lparr> retrievalResults = Some
         [ \<lparr> br_text = Some ''Test content 1'',
             br_location = Some \<lparr> location_type = None,
                                 s3Location = Some \<lparr> uri = Some ''s3://bucket/doc1.pdf'' \<rparr> \<rparr>,
             br_score = Some 0.95,
             br_metadata = Some [(''source'', JString ''document1'')] \<rparr>,
           \<lparr> br_text = Some ''Test content 2'', br_location = None,
             br_score = Some 0.88, br_metadata = None \<rparr> ] \<rparr>"

text \<open>A backend whose answer is \<open>{output: {text: "r"}, sessionId: token}\<close>.\<close>

definition token_gateway :: "string \<Rightarrow> gateway" where
  "token_gateway token =
     BedrockKnowledgeBaseClient test_config
       (resolving_backend no_results
          \<lparr> resp_text = Some ''r'', resp_citations = None, resp_sessionId = Some token \<rparr>)"

definition create_energy :: CallToolRequest where
  "create_energy =
     \<lparr> name = ''create_session'', arguments = Some (no_args \<lparr> sessionName := Some ''energy'' \<rparr>) \<rparr>"

definition ask_energy :: CallToolRequest where
  "ask_energy =
     \<lparr> name = ''retrieve_and_generate'',
       arguments = Some (no_args \<lparr> query := JString ''q'', sessionId := Some ''energy'' \<rparr>) \<rparr>"

definition list_request :: CallToolRequest where
  "list_request = \<lparr> name = ''list_sessions'', arguments = Some no_args \<rparr>"

text \<open>
  Five calls: the session is created, gets a first token, a call fails validation,
  a second token arrives, and a last answer carries no token.
\<close>

definition energy_calls :: "call list" where
  "energy_calls =
     [ (idle_gateway, 1, create_energy),
       (token_gateway ''tok-1'', 2, ask_energy),
       (idle_gateway, 3, \<lparr> name = ''retrieve_and_generate'', arguments = Some no_args \<rparr>),
       (token_gateway ''tok-2'', 4, ask_energy),
       (idle_gateway, 5, ask_energy) ]"

lemmas gateway_defs =
  BedrockKnowledgeBaseClient_def retrieve_def retrieve_input_def retrieve_result_def
  retrieveAndGenerate_def retrieveAndGenerate_input_def generate_citation_def
  generate_reference_def spread_if_def str_or_def num_or_def string_of_def truthy_str_def

lemmas handler_defs =
  handler_def handler_try_def Let_def retrieve_knowledge_resume_def
  retrieve_and_generate_resume_def invalid_query_def map_has_def map_get_def map_set_def
  generated_name_def shape_result_def shape_citation_def shape_source_def shape_entry_def
  source_of_def

lemmas double_defs =
  no_args_def test_config_def resolving_backend_def rejecting_backend_def no_results_def
  no_answer_def idle_gateway_def throwing_gateway_def two_results_def token_gateway_def
  create_energy_def ask_energy_def list_request_def energy_calls_def
  destructure_error_def supplied_sessionId_def

section \<open>Validation and routing\<close>

lemma handler_try_invalid:
  assumes "name request = ''retrieve_knowledge'' \<or> name request = ''retrieve_and_generate''"
    and "arguments request = Some args"
    and "\<forall>s. query args = JString s \<longrightarrow> s = []"
  shows "handler_try now sess request = Finished (Inl invalid_query, sess)"
proof -
  have "\<not> truthy (query args) \<or> typeof (query args) \<noteq> ''string''"
    using assms(3) by (cases "query args") auto
  then show ?thesis
    using assms(1,2) by (auto simp: handler_try_def Let_def)
qed

text \<open>
  A \<open>retrieve_knowledge\<close> or \<open>retrieve_and_generate\<close> call that carries a bag with no
  \<open>query\<close>, a \<open>query\<close> that is not a string, or the empty string, fails with
  \<open>InvalidParams\<close>; the handler body ends before it calls the gateway, and the
  registry, which it did not read, is as it was.
\<close>

lemma invalid_query_in_a_bag_is_rejected:
  assumes "name request = ''retrieve_knowledge'' \<or> name request = ''retrieve_and_generate''"
    and "arguments request = Some args"
    and "\<forall>s. query args = JString s \<longrightarrow> s = []"
  shows "pending (handler_try now sess request) = None
         \<and> handler gw now sess request =
             (Inl (McpError InvalidParams ''Query is required and must be a string''), sess)"
  using handler_try_invalid [OF assms] by (simp add: handler_def invalid_query_def)

lemma invalid_query_in_a_bag_is_rejected_example:
  "pending (handler_try 0 [] \<lparr> name = ''retrieve_knowledge'', arguments = Some no_args \<rparr>) = None
   \<and> handler idle_gateway 0 [] \<lparr> name = ''retrieve_knowledge'', arguments = Some no_args \<rparr> =
       (Inl (McpError InvalidParams ''Query is required and must be a string''), [])
   \<and> handler idle_gateway 0 []
       \<lparr> name = ''retrieve_and_generate'', arguments = Some (no_args \<lparr> query := JString [] \<rparr>) \<rparr> =
       (Inl (McpError InvalidParams ''Query is required and must be a string''), [])
   \<and> handler idle_gateway 0 []
       \<lparr> name = ''retrieve_knowledge'', arguments = Some (no_args \<lparr> query := JNumber 7 \<rparr>) \<rparr> =
       (Inl (McpError InvalidParams ''Query is required and must be a string''), [])"
  using
    invalid_query_in_a_bag_is_rejected
      [of "\<lparr> name = ''retrieve_knowledge'', arguments = Some no_args \<rparr>" no_args 0 "[]"
          idle_gateway]
    invalid_query_in_a_bag_is_rejected
      [of "\<lparr> name = ''retrieve_and_generate'', arguments = Some (no_args \<lparr> query := JString [] \<rparr>) \<rparr>"
          "no_args \<lparr> query := JString [] \<rparr>" 0 "[]" idle_gateway]
    invalid_query_in_a_bag_is_rejected
      [of "\<lparr> name = ''retrieve_knowledge'', arguments = Some (no_args \<lparr> query := JNumber 7 \<rparr>) \<rparr>"
          "no_args \<lparr> query := JNumber 7 \<rparr>" 0 "[]" idle_gateway]
  by (simp add: no_args_def)

text \<open>
  C6. The claim asks that a \<open>retrieve_knowledge\<close> or \<open>retrieve_and_generate\<close> call
  without a \<open>query\<close> fail with \<open>InvalidParams\<close>. A call that comes without an argument
  bag has no \<open>query\<close>, but the handler destructures \<open>args\<close> before it tests \<open>query\<close>:
  the destructuring throws, and the catch block reports \<open>InternalError\<close>.
\<close>

theorem query_check_misses_absent_bag:
  "handler idle_gateway 0 [] \<lparr> name = ''retrieve_knowledge'', arguments = None \<rparr> =
     (Inl (McpError InternalError
             (''Error executing tool retrieve_knowledge: Cannot destructure property ''
              @ [CHR 0x27] @ ''query'' @ [CHR 0x27] @ '' of '' @ [CHR 0x27] @ ''args''
              @ [CHR 0x27] @ '' as it is undefined.'')), [])
   \<and> handler idle_gateway 0 [] \<lparr> name = ''retrieve_and_generate'', arguments = None \<rparr> =
     (Inl (McpError InternalError
             (''Error executing tool retrieve_and_generate: Cannot destructure property ''
              @ [CHR 0x27] @ ''query'' @ [CHR 0x27] @ '' of '' @ [CHR 0x27] @ ''args''
              @ [CHR 0x27] @ '' as it is undefined.'')), [])"
  by (simp add: handler_def handler_try_def Let_def destructure_error_def)

text \<open>
  C8. A call whose name is none of the four cataloged operations fails with
  \<open>MethodNotFound\<close>, and the message ends with the name it did not recognise; no
  gateway call is made and the registry is as it was.
\<close>

theorem unknown_tool_is_method_not_found:
  assumes "name request \<notin> {''retrieve_knowledge'', ''retrieve_and_generate'',
                            ''create_session'', ''list_sessions''}"
  shows "handler gw now sess request =
           (Inl (McpError MethodNotFound (''Unknown tool: '' @ name request)), sess)
         \<and> pending (handler_try now sess request) = None"
  using assms by (simp add: handler_def handler_try_def Let_def)

theorem unknown_tool_is_method_not_found_witness:
  "handler idle_gateway 0 [] \<lparr> name = ''delete_everything'', arguments = Some no_args \<rparr> =
     (Inl (McpError MethodNotFound ''Unknown tool: delete_everything''), [])"
  using unknown_tool_is_method_not_found
          [of "\<lparr> name = ''delete_everything'', arguments = Some no_args \<rparr>" idle_gateway 0 "[]"]
  by simp

section \<open>The result-count limit of a call\<close>

lemma handler_ignores_maxResults:
  assumes "arguments request = Some args"
  shows "handler gw now sess (request \<lparr> arguments := Some (args \<lparr> maxResults := m \<rparr>) \<rparr>) =
           handler gw now sess request"
proof -
  have "handler_try now sess (request \<lparr> arguments := Some (args \<lparr> maxResults := m \<rparr>) \<rparr>) =
          handler_try now sess request"
    using assms by (simp add: handler_try_def Let_def)
  moreover have "name (request \<lparr> arguments := Some (args \<lparr> maxResults := m \<rparr>) \<rparr>) =
          name request"
    by simp
  ultimately show ?thesis
    unfolding handler_def by (simp only:)
qed

text \<open>
  C1. The claim asks that \<open>retrieve_knowledge\<close> with \<open>maxResults\<close> 0 or 101 fail with
  \<open>InvalidParams\<close>. The handler destructures \<open>query\<close> and \<open>sessionId\<close> only, so a
  bag with \<open>{query: "x", maxResults: 0}\<close>, and one with 101, runs to the success
  envelope against a backend that returns no results.
\<close>

theorem maxResults_out_of_bound_succeeds:
  "handler idle_gateway 0 []
     \<lparr> name = ''retrieve_knowledge'',
       arguments = Some (no_args \<lparr> query := JString ''x'', maxResults := Some 0 \<rparr>) \<rparr>
     = (Inr (RetrievePayload ''x'' [] 0), [])
   \<and> handler idle_gateway 0 []
     \<lparr> name = ''retrieve_knowledge'',
       arguments = Some (no_args \<lparr> query := JString ''x'', maxResults := Some 101 \<rparr>) \<rparr>
     = (Inr (RetrievePayload ''x'' [] 0), [])"
  by (simp add: handler_defs gateway_defs double_defs)

section \<open>Shaping retrieval results\<close>

lemma handler_try_retrieve_knowledge:
  assumes "name request = ''retrieve_knowledge''"
    and "query args = JString q" and "q \<noteq> []"
    and "arguments request = Some args"
  shows "handler_try now sess request =
           AwaitRetrieve q (sessionId args) (retrieve_knowledge_resume sess q)"
  using assms by (simp add: handler_try_def Let_def)

lemma source_of_None: "source_of None = ''Unknown''"
  by (simp add: source_of_def str_or_def)

text \<open>
  C3. When the gateway returns a list of results to a \<open>retrieve_knowledge\<close> call, the
  payload is the query, one shaped result for each returned one in the same order,
  and the length of the list. The shaped result at position \<open>i\<close> has rank \<open>i + 1\<close>,
  the text of the \<open>i\<close>-th result as content, its score and metadata, and as source the
  locator's URI, or \<open>Unknown\<close> when the result has no locator.
\<close>

theorem retrieve_knowledge_ranks_in_order:
  assumes "name request = ''retrieve_knowledge''"
    and "query args = JString q" and "q \<noteq> []"
    and "gw_retrieve gw q (sessionId args) = Inr results"
    and bag: "arguments request = Some args"
  shows "\<exists>shaped.
           handler gw now sess request = (Inr (RetrievePayload q shaped (length results)), sess)
           \<and> length shaped = length results
           \<and> (\<forall>i < length results.
                 rank (shaped ! i) = i + 1
                 \<and> content (shaped ! i) = content_text (results ! i)
                 \<and> out_score (shaped ! i) = score (results ! i)
                 \<and> out_metadata (shaped ! i) = metadata (results ! i)
                 \<and> source (shaped ! i) = source_of (location (results ! i))
                 \<and> (location (results ! i) = None \<longrightarrow> source (shaped ! i) = ''Unknown''))"
proof -
  let ?shaped = "map shape_result (enumerate 0 results)"
  have run: "handler gw now sess request =
               (Inr (RetrievePayload q ?shaped (length results)), sess)"
    using assms(4)
    by (simp add: handler_def handler_try_retrieve_knowledge [OF assms(1-3) bag]
          retrieve_knowledge_resume_def)
  have each: "?shaped ! i =
                \<lparr> rank = i + 1, content = content_text (results ! i),
                  out_score = score (results ! i),
                  source = source_of (location (results ! i)),
                  out_metadata = metadata (results ! i) \<rparr>"
    if "i < length results" for i
    using that by (simp add: nth_enumerate_eq shape_result_def)
  show ?thesis
    using run each by (intro exI [of _ ?shaped]) (auto simp: source_of_None)
qed

theorem retrieve_knowledge_ranks_in_order_witness:
  "handler (BedrockKnowledgeBaseClient test_config (resolving_backend two_results no_answer)) 0 []
     \<lparr> name = ''retrieve_knowledge'', arguments = Some (no_args \<lparr> query := JString ''test query'' \<rparr>) \<rparr>
   = (Inr (RetrievePayload ''test query''
        [ \<lparr> rank = 1, content = ''Test content 1'', out_score = Some 0.95,
            source = ''s3://bucket/doc1.pdf'',
            out_metadata = Some [(''source'', JString ''document1'')] \<rparr>,
          \<lparr> rank = 2, content = ''Test content 2'', out_score = Some 0.88,
            source = ''Unknown'', out_metadata = None \<rparr> ] 2), [])"
  using retrieve_knowledge_ranks_in_order
    [of "\<lparr> name = ''retrieve_knowledge'',
           arguments = Some (no_args \<lparr> query := JString ''test query'' \<rparr>) \<rparr>"
        "no_args \<lparr> query := JString ''test query'' \<rparr>"
        "''test query''"
        "BedrockKnowledgeBaseClient test_config (resolving_backend two_results no_answer)"
        "map retrieve_result (case retrievalResults two_results of None \<Rightarrow> [] | Some rs \<Rightarrow> rs)"
        0 "[]"]
  by (simp add: handler_defs gateway_defs double_defs)

section \<open>Failures of the gateway\<close>

text \<open>
  C4. When the gateway call of a dispatched call throws an \<open>Error\<close> that is no typed
  dispatch error, the call fails with \<open>InternalError\<close>, and the message holds the
  operation name and then the original message; when it throws a typed dispatch
  error, the call fails with that very error. A thrown value that is no \<open>Error\<close> has
  no message to keep and is reported as \<open>Unknown error\<close>. The registry is as it was.
  With the repository's gateway, a backend rejection with message \<open>msg\<close> fails
  \<open>retrieve_knowledge\<close> with an \<open>InternalError\<close> whose message ends with \<open>msg\<close>.
\<close>

theorem gateway_errors_are_wrapped_once:
  "(pending (handler_try now sess request) = Some c \<and> raised gw c = Some (ThrownError msg)
      \<longrightarrow> handler gw now sess request =
            (Inl (McpError InternalError
                    (''Error executing tool '' @ name request @ '': '' @ msg)), sess))
   \<and> (pending (handler_try now sess request) = Some c \<and> raised gw c = Some (ThrownMcp e)
      \<longrightarrow> handler gw now sess request = (Inl e, sess))
   \<and> (pending (handler_try now sess request) = Some c \<and> raised gw c = Some ThrownValue
      \<longrightarrow> handler gw now sess request =
            (Inl (McpError InternalError
                    (''Error executing tool '' @ name request @ '': Unknown error'')), sess))
   \<and> (name request = ''retrieve_knowledge'' \<and> arguments request = Some args
       \<and> query args = JString q \<and> q \<noteq> []
       \<and> send_retrieve client (retrieve_input config q (sessionId args))
           = Inl (RejectError msg)
      \<longrightarrow> handler (BedrockKnowledgeBaseClient config client) now sess request =
            (Inl (McpError InternalError
                    (''Error executing tool retrieve_knowledge: ''
                     @ ''Failed to retrieve from knowledge base: '' @ msg)), sess))"
proof -
  have wrap: "handler gw now sess request = (Inl (catch_block (name request) t), sess)"
    if "pending (handler_try now sess request) = Some c" and "raised gw c = Some t" for t
    using that
    by (cases "handler_try now sess request"; cases c)
       (auto simp: handler_def handler_try_def Let_def retrieve_knowledge_resume_def
          retrieve_and_generate_resume_def split: if_splits sum.splits option.splits)
  have real: "handler (BedrockKnowledgeBaseClient config client) now sess request =
            (Inl (McpError InternalError
                    (''Error executing tool retrieve_knowledge: ''
                     @ ''Failed to retrieve from knowledge base: '' @ msg)), sess)"
    if "name request = ''retrieve_knowledge''" "query args = JString q" "q \<noteq> []"
       "arguments request = Some args"
       "send_retrieve client (retrieve_input config q (sessionId args))
           = Inl (RejectError msg)"
    using that
    by (simp add: handler_def handler_try_retrieve_knowledge retrieve_knowledge_resume_def
          BedrockKnowledgeBaseClient_def retrieve_def)
  show ?thesis
    using wrap [of "ThrownError msg"] wrap [of "ThrownMcp e"] wrap [of ThrownValue] real
    by auto
qed

theorem gateway_errors_are_wrapped_once_witness:
  "handler (BedrockKnowledgeBaseClient test_config
              (rejecting_backend (RejectError ''ThrottlingException''))) 0 []
     \<lparr> name = ''retrieve_knowledge'', arguments = Some (no_args \<lparr> query := JString ''q'' \<rparr>) \<rparr>
   = (Inl (McpError InternalError
        (''Error executing tool retrieve_knowledge: ''
         @ ''Failed to retrieve from knowledge base: '' @ ''ThrottlingException'')), [])
   \<and> handler (throwing_gateway (ThrownMcp (McpError InvalidParams ''rejected downstream''))) 0 []
       \<lparr> name = ''retrieve_knowledge'', arguments = Some (no_args \<lparr> query := JString ''q'' \<rparr>) \<rparr>
     = (Inl (McpError InvalidParams ''rejected downstream''), [])
   \<and> handler (throwing_gateway (ThrownError ''Client error'')) 0 [] ask_energy
     = (Inl (McpError InternalError
          ''Error executing tool retrieve_and_generate: Client error''), [])"
  using
    gateway_errors_are_wrapped_once
      [where now = 0 and sess = "[]"
         and request = "\<lparr> name = ''retrieve_knowledge'',
                          arguments = Some (no_args \<lparr> query := JString ''q'' \<rparr>) \<rparr>"
         and c = "RetrieveCall ''q'' None"
         and gw = "throwing_gateway (ThrownMcp (McpError InvalidParams ''rejected downstream''))"
         and msg = "''ThrottlingException''"
         and e = "McpError InvalidParams ''rejected downstream''"
         and args = "no_args \<lparr> query := JString ''q'' \<rparr>" and q = "''q''"
         and client = "rejecting_backend (RejectError ''ThrottlingException'')"
         and config = test_config]
    gateway_errors_are_wrapped_once
      [where now = 0 and sess = "[]" and request = ask_energy
         and c = "RetrieveAndGenerateCall ''q'' (Some ''energy'') None"
         and gw = "throwing_gateway (ThrownError ''Client error'')"
         and msg = "''Client error''"]
  by (simp add: handler_defs gateway_defs double_defs)


section \<open>Session continuity\<close>

lemma handler_try_retrieve_and_generate:
  assumes "name request = ''retrieve_and_generate''"
    and "query args = JString q" and "q \<noteq> []"
    and "arguments request = Some args"
  shows "handler_try now sess request =
           AwaitRetrieveAndGenerate q
             (if truthy_str (sessionId args)
                 \<and> map_has sess (string_of (sessionId args))
              then map_get sess (string_of (sessionId args))
              else sessionId args)
             (systemPrompt args)
             (retrieve_and_generate_resume now sess q (sessionId args))"
  using assms by (simp add: handler_try_def Let_def)

lemma map_set_get: "map_get (map_set sess k v) k = Some v"
  by (simp add: map_get_def map_set_def update_conv')

lemma map_set_member: "(k, v) \<in> set (map_set sess k v)"
  using map_set_get [of sess k v] by (auto simp: map_get_def dest: map_of_SomeD)

lemma map_set_length: "map_has sess k \<Longrightarrow> length (map_set sess k v) = length sess"
  unfolding map_has_def map_set_def
  by (induction sess) (auto split: if_splits)

lemma resolve_supplied:
  assumes "name request = ''retrieve_and_generate''"
    and "query args = JString q" and "q \<noteq> []"
    and "sessionId args = Some s" and "s \<noteq> []"
    and bag: "arguments request = Some args"
  shows "pending (handler_try now sess request) =
           Some (RetrieveAndGenerateCall q
                   (case map_get sess s of None \<Rightarrow> Some s | Some token \<Rightarrow> Some token)
                   (systemPrompt args))"
  using assms(4,5)
  by (simp add: handler_try_retrieve_and_generate [OF assms(1-3) bag] truthy_str_def
        string_of_def map_has_def map_get_def split: option.splits)

lemma handler_list_sessions:
  "name request = ''list_sessions'' \<Longrightarrow>
     handler gw now sess request =
       (Inr (ListSessionsPayload (map shape_entry sess) (length sess)), sess)"
  by (simp add: handler_def handler_try_def Let_def)

text \<open>
  C2. A \<open>retrieve_and_generate\<close> call supplies a session handle \<open>s\<close> (a non-empty
  string). The gateway is called with the token the registry stores for \<open>s\<close> when it
  has an entry, and with \<open>s\<close> itself when it has none. When the gateway answers with
  a non-empty token, the registry after the call is the one before with \<open>s\<close> set to
  that token, and the same request made again, at any later time, calls the gateway
  with that token.
\<close>

theorem supplied_session_is_resolved_and_updated:
  assumes "name request = ''retrieve_and_generate''"
    and "query args = JString q" and "q \<noteq> []"
    and "sessionId args = Some s" and "s \<noteq> []"
    and "resolved = (case map_get sess s of None \<Rightarrow> Some s | Some token \<Rightarrow> Some token)"
    and bag: "arguments request = Some args"
  shows "pending (handler_try now sess request) =
           Some (RetrieveAndGenerateCall q resolved (systemPrompt args))
         \<and> (\<forall>result token.
               gw_retrieveAndGenerate gw q resolved (systemPrompt args) = Inr result
               \<and> result_sessionId result = Some token \<and> token \<noteq> [] \<longrightarrow>
                 snd (handler gw now sess request) = map_set sess s token
                 \<and> map_get (snd (handler gw now sess request)) s = Some token
                 \<and> (\<forall>later. pending (handler_try later (snd (handler gw now sess request)) request) =
                       Some (RetrieveAndGenerateCall q (Some token)
                               (systemPrompt args))))"
proof -
  have first: "pending (handler_try now sess request) =
           Some (RetrieveAndGenerateCall q resolved (systemPrompt args))"
    unfolding assms(6) by (rule resolve_supplied [OF assms(1-5) bag])
  have stored: "snd (handler gw now sess request) = map_set sess s token"
    if "gw_retrieveAndGenerate gw q resolved (systemPrompt args) = Inr result"
      and "result_sessionId result = Some token" and "token \<noteq> []" for result token
    using that assms(4,5,6)
    by (simp add: handler_def handler_try_retrieve_and_generate [OF assms(1-3) bag]
          retrieve_and_generate_resume_def truthy_str_def string_of_def map_has_def map_get_def
          Let_def split: option.splits)
  have second: "pending (handler_try later (map_set sess s token) request) =
                  Some (RetrieveAndGenerateCall q (Some token) (systemPrompt args))"
    for later token
    using resolve_supplied [OF assms(1-5) bag, of later "map_set sess s token"]
    by (simp add: map_set_get)
  show ?thesis
    using first stored second by (simp add: map_set_get)
qed

theorem supplied_session_is_resolved_and_updated_witness:
  "pending (handler_try 2 [] ask_energy) =
     Some (RetrieveAndGenerateCall ''q'' (Some ''energy'') None)
   \<and> pending (handler_try 2 [(''energy'', ''tok-0'')] ask_energy) =
     Some (RetrieveAndGenerateCall ''q'' (Some ''tok-0'') None)
   \<and> snd (handler (token_gateway ''tok-1'') 2 [] ask_energy) = [(''energy'', ''tok-1'')]
   \<and> map_get (snd (handler (token_gateway ''tok-1'') 2 [] ask_energy)) ''energy'' = Some ''tok-1''
   \<and> pending (handler_try 3 (snd (handler (token_gateway ''tok-1'') 2 [] ask_energy)) ask_energy) =
     Some (RetrieveAndGenerateCall ''q'' (Some ''tok-1'') None)"
  using
    supplied_session_is_resolved_and_updated
      [where request = ask_energy
         and args = "no_args \<lparr> query := JString ''q'', sessionId := Some ''energy'' \<rparr>"
         and q = "''q''" and s = "''energy''" and resolved = "Some ''energy''" and sess = "[]"
         and now = 2 and gw = "token_gateway ''tok-1''"]
    supplied_session_is_resolved_and_updated
      [where request = ask_energy
         and args = "no_args \<lparr> query := JString ''q'', sessionId := Some ''energy'' \<rparr>"
         and q = "''q''" and s = "''energy''" and resolved = "Some ''tok-0''"
         and sess = "[(''energy'', ''tok-0'')]" and now = 2 and gw = "token_gateway ''tok-1''"]
  by (simp add: handler_defs gateway_defs double_defs)

text \<open>
  A \<open>create_session\<close> call that carries a bag allocates as handle the \<open>sessionName\<close>
  it is given (a non-empty string), else \<open>session_\<close> followed by the digits of the clock. It answers
  with the handle and the message \<open>Session created successfully\<close> and sets the handle
  to the empty token in the registry; an entry the handle already had is replaced,
  not added to, and the call does not fail. A \<open>list_sessions\<close> call on the registry
  so left lists the handle as not active with no token; on any later registry it
  lists the handle as active exactly when its token is non-empty.
\<close>

lemma create_session_with_a_bag_registers_empty_token:
  assumes "name request = ''create_session''"
    and "name listing = ''list_sessions''"
    and "handle = str_or (sessionName args) (generated_name now)"
    and bag: "arguments request = Some args"
  shows "(\<forall>n. sessionName args = Some n \<and> n \<noteq> [] \<longrightarrow> handle = n)
         \<and> (sessionName args = None \<longrightarrow> handle = ''session_'' @ string_of_nat now)
         \<and> handler gw now sess request =
             (Inr (CreateSessionPayload handle ''Session created successfully''),
              map_set sess handle [])
         \<and> map_get (map_set sess handle []) handle = Some []
         \<and> (map_has sess handle \<longrightarrow> length (map_set sess handle []) = length sess)
         \<and> (\<exists>entries total.
               handler gw' now' (map_set sess handle []) listing =
                 (Inr (ListSessionsPayload entries total), map_set sess handle [])
               \<and> \<lparr> entry_sessionId = handle, bedrockSessionId = None, active = False \<rparr>
                   \<in> set entries)
         \<and> (\<forall>later token. (handle, token) \<in> set later \<longrightarrow>
               (\<exists>entries total.
                  handler gw' now' later listing = (Inr (ListSessionsPayload entries total), later)
                  \<and> \<lparr> entry_sessionId = handle,
                       bedrockSessionId = (if token = [] then None else Some token),
                       active = (token \<noteq> []) \<rparr> \<in> set entries))"
proof -
  have entry: "\<lparr> entry_sessionId = handle,
                  bedrockSessionId = (if token = [] then None else Some token),
                  active = (token \<noteq> []) \<rparr> \<in> set (map shape_entry later)"
    if "(handle, token) \<in> set later" for later token
  proof -
    have "shape_entry (handle, token) \<in> shape_entry ` set later"
      using that by (rule imageI)
    then show ?thesis by (simp add: shape_entry_def)
  qed
  have created: "handler gw now sess request =
             (Inr (CreateSessionPayload handle ''Session created successfully''),
              map_set sess handle [])"
    using assms(1,3) bag by (simp add: handler_def handler_try_def Let_def)
  have names: "(\<forall>n. sessionName args = Some n \<and> n \<noteq> [] \<longrightarrow> handle = n)
         \<and> (sessionName args = None \<longrightarrow> handle = ''session_'' @ string_of_nat now)"
    using assms(3) by (simp add: str_or_def generated_name_def)
  have fresh: "\<lparr> entry_sessionId = handle, bedrockSessionId = None, active = False \<rparr>
                   \<in> set (map shape_entry (map_set sess handle []))"
    using entry [OF map_set_member [of handle "[]" sess]] by simp
  show ?thesis
    using names created map_set_get [of sess handle "[]"] map_set_length [of sess handle "[]"]
      fresh entry handler_list_sessions [OF assms(2)]
    by (intro conjI) auto
qed

lemma create_session_with_a_bag_registers_empty_token_example:
  "handler idle_gateway 1 [] create_energy =
     (Inr (CreateSessionPayload ''energy'' ''Session created successfully''), [(''energy'', [])])
   \<and> (\<exists>entries total.
         handler idle_gateway 2 [(''energy'', [])] list_request =
           (Inr (ListSessionsPayload entries total), [(''energy'', [])])
         \<and> \<lparr> entry_sessionId = ''energy'', bedrockSessionId = None, active = False \<rparr>
             \<in> set entries)
   \<and> handler idle_gateway 3 [(''energy'', ''tok-1'')] create_energy =
     (Inr (CreateSessionPayload ''energy'' ''Session created successfully''), [(''energy'', [])])
   \<and> handler idle_gateway 1700000000000 [] \<lparr> name = ''create_session'', arguments = Some no_args \<rparr> =
     (Inr (CreateSessionPayload ''session_1700000000000'' ''Session created successfully''),
      [(''session_1700000000000'', [])])"
proof -
  have creating: "name create_energy = ''create_session''"
    and listing: "name list_request = ''list_sessions''"
    and named: "''energy'' = str_or (sessionName (no_args \<lparr> sessionName := Some ''energy'' \<rparr>))
                               (generated_name t)"
    and bag: "arguments create_energy = Some (no_args \<lparr> sessionName := Some ''energy'' \<rparr>)"
    for t
    by (simp_all add: create_energy_def list_request_def no_args_def str_or_def)
  have unnamed: "name \<lparr> name = ''create_session'', arguments = Some no_args \<rparr> = ''create_session''"
    and generated:
      "''session_1700000000000'' = str_or (sessionName no_args) (generated_name 1700000000000)"
    and empty_bag:
      "arguments \<lparr> name = ''create_session'', arguments = Some no_args \<rparr> = Some no_args"
    by (simp_all add: no_args_def str_or_def generated_name_def string_of_nat.simps digit_def)
  have stored: "map_set [] ''energy'' [] = [(''energy'', [])]"
    "map_set [(''energy'', ''tok-1'')] ''energy'' [] = [(''energy'', [])]"
    "map_set [] ''session_1700000000000'' [] = [(''session_1700000000000'', [])]"
    by (simp_all add: map_set_def)
  note first =
    create_session_with_a_bag_registers_empty_token
      [OF creating listing named [of 1] bag, of idle_gateway "[]" idle_gateway 2,
       unfolded stored]
  note again =
    create_session_with_a_bag_registers_empty_token
      [OF creating listing named [of 3] bag, of idle_gateway "[(''energy'', ''tok-1'')]"
          idle_gateway 2, unfolded stored]
  note clock =
    create_session_with_a_bag_registers_empty_token
      [OF unnamed listing generated empty_bag, of idle_gateway "[]" idle_gateway 2,
       unfolded stored]
  show ?thesis
    using first again clock by blast
qed

text \<open>
  C7. The claim asks that every \<open>create_session\<close> call allocate a handle, a generated
  one when no \<open>sessionName\<close> is given. A call that comes without an argument bag gives
  no \<open>sessionName\<close>, but the handler destructures \<open>args\<close> unguarded: the destructuring
  throws, the call fails with \<open>InternalError\<close>, and the registry gets no entry.
\<close>

theorem create_session_misses_absent_bag:
  "handler idle_gateway 1700000000000 [] \<lparr> name = ''create_session'', arguments = None \<rparr> =
     (Inl (McpError InternalError
             (''Error executing tool create_session: Cannot destructure property ''
              @ [CHR 0x27] @ ''sessionName'' @ [CHR 0x27] @ '' of '' @ [CHR 0x27] @ ''args''
              @ [CHR 0x27] @ '' as it is undefined.'')), [])"
  by (simp add: handler_def handler_try_def Let_def destructure_error_def)

lemma spread_if_empty: "sid = None \<or> sid = Some [] \<Longrightarrow> spread_if sid = None"
  by (auto simp: spread_if_def truthy_str_def)

text \<open>
  C10. A gateway call whose continuation argument is absent or the empty string
  builds a request without the continuation field: no \<open>nextToken\<close> in the retrieve
  request, no \<open>sessionId\<close> in the generate request. So a \<open>retrieve_and_generate\<close> call
  for a handle that \<open>create_session\<close> has just registered calls the gateway with the
  empty token, and the request built from it has no \<open>sessionId\<close>.
\<close>

theorem empty_continuation_is_omitted:
  "((sid = None \<or> sid = Some []) \<longrightarrow>
      nextToken (retrieve_input config q sid) = None
      \<and> gi_sessionId (retrieveAndGenerate_input config q sid prompt) = None)
   \<and> (name creation = ''create_session'' \<and> arguments creation = Some named
       \<and> sessionName named = Some s \<and> s \<noteq> []
       \<and> name request = ''retrieve_and_generate'' \<and> arguments request = Some args
       \<and> query args = JString q \<and> q \<noteq> [] \<and> sessionId args = Some s \<longrightarrow>
        pending (handler_try later (snd (handler gw now sess creation)) request) =
          Some (RetrieveAndGenerateCall q (Some []) (systemPrompt args))
        \<and> gi_sessionId (retrieveAndGenerate_input config q (Some [])
                          (systemPrompt args)) = None)"
proof -
  have created: "snd (handler gw now sess creation) = map_set sess s []"
    if "name creation = ''create_session''" "arguments creation = Some named"
       "sessionName named = Some s" "s \<noteq> []"
    using that by (simp add: handler_def handler_try_def Let_def str_or_def)
  have resolved: "pending (handler_try later (map_set sess s []) request) =
          Some (RetrieveAndGenerateCall q (Some []) (systemPrompt args))"
    if "name request = ''retrieve_and_generate''" "query args = JString q"
       "q \<noteq> []" "sessionId args = Some s" "s \<noteq> []" "arguments request = Some args"
    using resolve_supplied [OF that, of later "map_set sess s []"] by (simp add: map_set_get)
  show ?thesis
    using created resolved
    by (auto simp: retrieve_input_def retrieveAndGenerate_input_def spread_if_empty)
qed

theorem empty_continuation_is_omitted_witness:
  "nextToken (retrieve_input test_config ''q'' (Some [])) = None
   \<and> nextToken (retrieve_input test_config ''q'' None) = None
   \<and> gi_sessionId (retrieveAndGenerate_input test_config ''q'' (Some []) None) = None
   \<and> pending (handler_try 2 (snd (handler idle_gateway 1 [] create_energy)) ask_energy) =
       Some (RetrieveAndGenerateCall ''q'' (Some []) None)"
  using
    empty_continuation_is_omitted
      [where sid = "Some []" and config = test_config and q = "''q''" and prompt = None
         and creation = create_energy
         and named = "no_args \<lparr> sessionName := Some ''energy'' \<rparr>" and s = "''energy''"
         and request = ask_energy
         and args = "no_args \<lparr> query := JString ''q'', sessionId := Some ''energy'' \<rparr>"
         and later = 2 and gw = idle_gateway and now = 1 and sess = "[]"]
    empty_continuation_is_omitted
      [where sid = None and config = test_config and q = "''q''" and prompt = None]
  by (simp add: handler_defs gateway_defs double_defs)


section \<open>The registry over a sequence of calls\<close>

lemma handler_step:
  "snd (handler gw now sess request) =
     (case response_write now request (fst (handler gw now sess request)) of
        None \<Rightarrow> sess
      | Some (h, v) \<Rightarrow> map_set sess h v)"
  by (auto simp: handler_def handler_try_def Let_def response_write_def
        retrieve_knowledge_resume_def retrieve_and_generate_resume_def invalid_query_def
        destructure_error_def supplied_sessionId_def
      split: sum.splits option.splits)

lemma handler_distinct:
  "distinct (map fst sess) \<Longrightarrow> distinct (map fst (snd (handler gw now sess request)))"
  by (simp add: handler_step map_set_def distinct_update split: option.splits)

lemma run_calls_distinct:
  "distinct (map fst sess) \<Longrightarrow> distinct (map fst (run_calls sess calls))"
  by (induction sess calls rule: run_calls.induct) (simp_all add: handler_distinct)

lemma run_calls_writes:
  "map_of (run_calls sess calls) = map_of (rev (writes sess calls) @ sess)"
proof (induction sess calls rule: run_calls.induct)
  case (1 sess)
  show ?case by simp
next
  case (2 sess gw now request rest)
  define sess' where "sess' = snd (handler gw now sess request)"
  define w where "w = response_write now request (fst (handler gw now sess request))"
  have ih: "map_of (run_calls sess' rest) = map_of (rev (writes sess' rest) @ sess')"
    unfolding sess'_def by (rule 2)
  have step: "map_of sess' = map_of ((case w of None \<Rightarrow> [] | Some x \<Rightarrow> [x]) @ sess)"
    unfolding sess'_def w_def
    by (subst handler_step) (simp add: map_set_def update_conv' split: option.splits)
  have "map_of (run_calls sess ((gw, now, request) # rest)) =
          map_of sess' ++ map_of (rev (writes sess' rest))"
    using ih by (simp add: sess'_def)
  also have "\<dots> = map_of (rev (writes sess ((gw, now, request) # rest)) @ sess)"
    using step by (simp add: sess'_def w_def split: option.splits)
  finally show ?case .
qed

lemma failed_call_keeps_registry:
  "fst (handler gw now sess request) = Inl e \<Longrightarrow> snd (handler gw now sess request) = sess"
  by (subst handler_step) (simp add: response_write_def)

lemma tokenless_answer_keeps_registry:
  "fst (handler gw now sess request) = Inr (GeneratePayload q r None cs)
     \<Longrightarrow> snd (handler gw now sess request) = sess"
  by (subst handler_step) (simp add: response_write_def)

text \<open>
  C5. After any sequence of calls from the empty registry, no handle occurs twice in
  the registry, and the registry maps a handle to the token of the last write for
  it in \<open>writes\<close>: the token of the most recent \<open>retrieve_and_generate\<close> answer stored
  under it, or the empty token of the most recent \<open>create_session\<close> for it, whichever
  came last; nothing older is kept. A call that fails (a validation failure among
  them) leaves the registry as it was, and so does a \<open>retrieve_and_generate\<close> call
  whose answer carries no token.
\<close>

theorem registry_is_last_write_wins:
  "distinct (map fst (run_calls [] calls))
   \<and> map_of (run_calls [] calls) = map_of (rev (writes [] calls))
   \<and> (\<forall>gw now sess request e.
         fst (handler gw now sess request) = Inl e \<longrightarrow>
         snd (handler gw now sess request) = sess)
   \<and> (\<forall>gw now sess request q r cs.
         fst (handler gw now sess request) = Inr (GeneratePayload q r None cs) \<longrightarrow>
         snd (handler gw now sess request) = sess)"
  using run_calls_distinct [of "[]" calls] run_calls_writes [of "[]" calls]
        failed_call_keeps_registry tokenless_answer_keeps_registry
  by simp

theorem registry_is_last_write_wins_witness:
  "writes [] energy_calls = [(''energy'', []), (''energy'', ''tok-1''), (''energy'', ''tok-2'')]
   \<and> run_calls [] energy_calls = [(''energy'', ''tok-2'')]
   \<and> map_of (run_calls [] energy_calls) ''energy'' = Some ''tok-2''
   \<and> distinct (map fst (run_calls [] energy_calls))
   \<and> handler idle_gateway 3 [(''energy'', ''tok-1'')]
        \<lparr> name = ''retrieve_and_generate'', arguments = Some no_args \<rparr> =
      (Inl (McpError InvalidParams ''Query is required and must be a string''),
       [(''energy'', ''tok-1'')])
   \<and> handler idle_gateway 5 [(''energy'', ''tok-2'')] ask_energy =
      (Inr (GeneratePayload ''q'' [] None None), [(''energy'', ''tok-2'')])"
proof -
  have ws: "writes [] energy_calls =
              [(''energy'', []), (''energy'', ''tok-1''), (''energy'', ''tok-2'')]"
    by (simp add: handler_defs gateway_defs double_defs response_write_def)
  have run: "run_calls [] energy_calls = [(''energy'', ''tok-2'')]"
    by (simp add: handler_defs gateway_defs double_defs)
  have invalid: "handler idle_gateway 3 [(''energy'', ''tok-1'')]
        \<lparr> name = ''retrieve_and_generate'', arguments = Some no_args \<rparr> =
      (Inl (McpError InvalidParams ''Query is required and must be a string''),
       [(''energy'', ''tok-1'')])"
    by (simp add: handler_defs gateway_defs double_defs)
  have tokenless: "handler idle_gateway 5 [(''energy'', ''tok-2'')] ask_energy =
      (Inr (GeneratePayload ''q'' [] None None), [(''energy'', ''tok-2'')])"
    by (simp add: handler_defs gateway_defs double_defs)
  note last = registry_is_last_write_wins [of energy_calls, unfolded ws]
  have "map_of (run_calls [] energy_calls) ''energy'' = Some ''tok-2''"
    using last by simp
  moreover have "distinct (map fst (run_calls [] energy_calls))"
    using last by blast
  ultimately show ?thesis
    using ws run invalid tokenless by blast
qed

section \<open>What the gateway defaults\<close>

text \<open>
  C9, as the code has it. The claim asks that an absent score, locator, metadata
  bag or citations list be replaced by a default. The gateway defaults the texts
  (result text, output text, citation text, reference text) to the empty string,
  the span offsets of a citation to 0, and a missing result list or reference list
  to the empty list. It copies score, location, metadata, the citations list and
  the continuation token as the backend sent them: an absent one stays absent.
\<close>

theorem gateway_defaults_texts_and_copies_the_rest:
  "(send_retrieve client (retrieve_input config q sid) = Inr response
      \<and> raws = (case retrievalResults response of None \<Rightarrow> [] | Some rs \<Rightarrow> rs) \<longrightarrow>
      (\<exists>results. retrieve config client q sid = Inr results
         \<and> length results = length raws
         \<and> (\<forall>i < length raws.
               content_text (results ! i) = str_or (br_text (raws ! i)) []
               \<and> score (results ! i) = br_score (raws ! i)
               \<and> location (results ! i) = br_location (raws ! i)
               \<and> metadata (results ! i) = br_metadata (raws ! i))))
   \<and> (send_generate client (retrieveAndGenerate_input config q sid prompt) = Inr answer \<longrightarrow>
      (\<exists>result. retrieveAndGenerate config client q sid prompt = Inr result
         \<and> output_text result = str_or (resp_text answer) []
         \<and> result_sessionId result = resp_sessionId answer
         \<and> (resp_citations answer = None \<longrightarrow> citations result = None)
         \<and> (\<forall>cs. resp_citations answer = Some cs \<longrightarrow>
               (\<exists>shaped. citations result = Some shaped \<and> length shaped = length cs
                  \<and> (\<forall>i < length cs.
                        part_text (shaped ! i) = str_or (bc_text (cs ! i)) []
                        \<and> span_start (shaped ! i) = num_or (bc_start (cs ! i)) 0
                        \<and> span_end (shaped ! i) = num_or (bc_end (cs ! i)) 0
                        \<and> (bc_retrievedReferences (cs ! i) = None \<longrightarrow>
                             retrievedReferences (shaped ! i) = [])
                        \<and> (\<forall>refs. bc_retrievedReferences (cs ! i) = Some refs \<longrightarrow>
                              length (retrievedReferences (shaped ! i)) = length refs
                              \<and> (\<forall>j < length refs.
                                    ref_text (retrievedReferences (shaped ! i) ! j) =
                                      str_or (bref_text (refs ! j)) []
                                    \<and> ref_location (retrievedReferences (shaped ! i) ! j) =
                                        bref_location (refs ! j)
                                    \<and> ref_metadata (retrievedReferences (shaped ! i) ! j) =
                                        bref_metadata (refs ! j))))))))"
  by (auto simp: retrieve_def retrieve_result_def retrieveAndGenerate_def generate_citation_def
        generate_reference_def)

theorem gateway_defaults_texts_and_copies_the_rest_witness:
  "retrieve test_config (resolving_backend two_results no_answer) ''q'' None =
     Inr [ \<lparr> content_text = ''Test content 1'',
             location = Some \<lparr> location_type = None,
                              s3Location = Some \<lparr> uri = Some ''s3://bucket/doc1.pdf'' \<rparr> \<rparr>,
             score = Some 0.95,
             metadata = Some [(''source'', JString ''document1'')] \<rparr>,
           \<lparr> content_text = ''Test content 2'', location = None,
             score = Some 0.88, metadata = None \<rparr> ]
   \<and> retrieveAndGenerate test_config (resolving_backend two_results no_answer) ''q'' None None =
     Inr \<lparr> output_text = [], citations = None, result_sessionId = None \<rparr>"
  using gateway_defaults_texts_and_copies_the_rest
          [of "resolving_backend two_results no_answer" test_config "''q''" None two_results
              "case retrievalResults two_results of None \<Rightarrow> [] | Some rs \<Rightarrow> rs" None no_answer]
  by (simp add: gateway_defs double_defs)

text \<open>
  C9, as the claim states it, fails on a result the backend sends without score,
  locator and metadata, and on an answer without citations: each stays absent.
\<close>

theorem absent_score_stays_absent:
  "retrieve test_config
     (resolving_backend
        \<lparr> retrievalResults = Some [\<lparr> br_text = Some ''A'', br_location = None,
                                      br_score = None, br_metadata = None \<rparr>] \<rparr>
        no_answer) ''q'' None
   = Inr [\<lparr> content_text = ''A'', location = None, score = None, metadata = None \<rparr>]
   \<and> retrieveAndGenerate test_config (resolving_backend no_results no_answer) ''q'' None None
   = Inr \<lparr> output_text = [], citations = None, result_sessionId = None \<rparr>"
  by (simp add: gateway_defs double_defs)


end
